theory Spec2Isabelle
  imports Main
begin

section \<open>Source-path resolution of Scripts/init.py\<close>

text \<open>
  The development embeds \<^verbatim>\<open>check_dirs_exist\<close> and \<^verbatim>\<open>check_or_create_config\<close> of
  \<^verbatim>\<open>Scripts/init.py\<close>. What the script takes from Python's standard library (the file
  system, \<^verbatim>\<open>json\<close>, \<^verbatim>\<open>shutil\<close>, \<^verbatim>\<open>input\<close>, \<^verbatim>\<open>print\<close>) is modelled first, as small
  executable functions; the script's own functions follow, in the order of the source.
\<close>

subsection \<open>Python values held by the configuration\<close>

text \<open>
  \<^verbatim>\<open>config_data\<close> is what \<^verbatim>\<open>json.load\<close> returned, later mutated by the script. It is built
  from strings, numbers, booleans, \<^verbatim>\<open>None\<close>, lists and dictionaries with string keys (an
  association list; the first binding of a key is the one looked up). \<open>PPath\<close> is a
  \<^verbatim>\<open>pathlib.Path\<close> object: the script stores one into the dictionary at line 363, and
  \<^verbatim>\<open>json\<close> cannot serialise it. The text kept in \<open>PPath\<close> is the joined path; pathlib's
  own normalisation of separators is not modelled. Floating-point numbers are left out.
\<close>

datatype pyval =
    PStr string
  | PPath string
  | PInt int
  | PBool bool
  | PNone
  | PList "pyval list"
  | PDict "(string \<times> pyval) list"

text \<open>\<^verbatim>\<open>json.dump\<close> raises \<^verbatim>\<open>TypeError\<close> exactly when it meets an object that is no JSON value.\<close>

fun serialisable :: "pyval \<Rightarrow> bool" where
  "serialisable (PPath p) = False"
| "serialisable (PList xs) = list_all serialisable xs"
| "serialisable (PDict kvs) = list_all (\<lambda>kv. serialisable (snd kv)) kvs"
| "serialisable (PStr s) = True"
| "serialisable (PInt i) = True"
| "serialisable (PBool b) = True"
| "serialisable PNone = True"

text \<open>
  \<^verbatim>\<open>d[k] = v\<close> on a dictionary: the binding is replaced in place, or appended. The
  entries of a directory are set the same way.
\<close>

fun dict_set :: "string \<Rightarrow> 'v \<Rightarrow> (string \<times> 'v) list \<Rightarrow> (string \<times> 'v) list" where
  "dict_set k v [] = [(k, v)]"
| "dict_set k v (kv # kvs) = (if fst kv = k then (k, v) # kvs else kv # dict_set k v kvs)"

text \<open>
  \<^verbatim>\<open>x.get(k, d)\<close>: only a dictionary has the method; on anything else Python raises
  \<^verbatim>\<open>AttributeError\<close>, which is \<open>None\<close> here.
\<close>

fun py_get :: "pyval \<Rightarrow> string \<Rightarrow> pyval \<Rightarrow> pyval option" where
  "py_get (PDict kvs) k d = Some (case map_of kvs k of None \<Rightarrow> d | Some v \<Rightarrow> v)"
| "py_get (PStr s) k d = None"
| "py_get (PPath p) k d = None"
| "py_get (PInt i) k d = None"
| "py_get (PBool b) k d = None"
| "py_get PNone k d = None"
| "py_get (PList xs) k d = None"

subsection \<open>The file system\<close>

text \<open>
  A directory tree. A file carries an access mode and its data: \<open>Doc v\<close> is the JSON text
  of the value \<open>v\<close>, \<open>Blob s\<close> any other bytes, \<open>Torn\<close> the remains of a file that was
  opened for writing and whose \<^verbatim>\<open>json.dump\<close> was aborted by an exception (cut-off text,
  no JSON document). Symbolic links, directory permissions, drive letters, letter case and
  the names \<^verbatim>\<open>.\<close> and \<^verbatim>\<open>..\<close> are not modelled; a path is read from the root of the tree.
\<close>

datatype perm = ReadWrite | ReadOnly | NoAccess

datatype fdata = Doc pyval | Blob string | Torn

datatype node = File perm fdata | Dir "(string \<times> node) list"

definition bslash :: char where
  "bslash = CHR 0x5C"

definition is_sep :: "char \<Rightarrow> bool" where
  "is_sep c = (c = CHR ''/'' \<or> c = bslash)"

text \<open>The components of a path text: both separators of Windows split, empty components drop.\<close>

fun components :: "string \<Rightarrow> string \<Rightarrow> string list" where
  "components acc [] = (if acc = [] then [] else [acc])"
| "components acc (c # cs) =
     (if is_sep c then (if acc = [] then components [] cs else acc # components [] cs)
      else components (acc @ [c]) cs)"

definition split_path :: "string \<Rightarrow> string list" where
  "split_path p = components [] p"

text \<open>\<^verbatim>\<open>os.path.join(p, n)\<close> for a relative \<open>n\<close>.\<close>

definition os_path_join :: "string \<Rightarrow> string \<Rightarrow> string" where
  "os_path_join p n = (if p = [] then n else if is_sep (last p) then p @ n else p @ [bslash] @ n)"

text \<open>
  \<^verbatim>\<open>os.path.dirname(p)\<close>: the text up to the last separator, without its trailing
  separators unless it consists of separators only.
\<close>

definition os_path_dirname :: "string \<Rightarrow> string" where
  "os_path_dirname p =
     (let head = rev (dropWhile (\<lambda>c. \<not> is_sep c) (rev p)) in
      if list_all is_sep head then head else rev (dropWhile is_sep (rev head)))"

fun get_node :: "node \<Rightarrow> string list \<Rightarrow> node option" where
  "get_node n [] = Some n"
| "get_node (File p d) (c # cs) = None"
| "get_node (Dir es) (c # cs) = (case map_of es c of None \<Rightarrow> None | Some ch \<Rightarrow> get_node ch cs)"

definition lookup :: "node \<Rightarrow> string \<Rightarrow> node option" where
  "lookup fs p = get_node fs (split_path p)"

definition os_path_exists :: "node \<Rightarrow> string \<Rightarrow> bool" where
  "os_path_exists fs p = (lookup fs p \<noteq> None)"

definition os_path_isdir :: "node \<Rightarrow> string \<Rightarrow> bool" where
  "os_path_isdir fs p = (case lookup fs p of Some (Dir es) \<Rightarrow> True | _ \<Rightarrow> False)"

subsection \<open>The console\<close>

text \<open>
  What the script prints is kept as a list of events. \<open>Say c t args\<close> is a call of the
  project's \<^verbatim>\<open>print\<close> with colour \<open>c\<close>; \<open>t\<close> is the message with \<^verbatim>\<open>{}\<close> where the
  f-string has a field (quotation marks and the indentation left out), \<open>args\<close> the values of
  the fields. \<open>Ask\<close> is a call of \<^verbatim>\<open>input\<close> with its prompt, \<open>Progress k n\<close> and
  \<open>LineClear\<close> are the two \<^verbatim>\<open>sys.stdout.write\<close> calls of the copy.
\<close>

datatype colour = RED | YELLOW | GREEN | DARK_GREEN | CYAN | BLUE | MAGENTA | GRAY

datatype arg = Txt string | Num nat

datatype event =
    Say colour string "arg list"
  | Ask string
  | Progress nat nat
  | LineClear

subsection \<open>Constants of the script\<close>

definition USRDIR_DIRS :: "string list" where
  "USRDIR_DIRS =
     [''ENVS'', ''FMV'', ''GRAPHICS'', ''GUIMENU'', ''IRX'', ''MISC'', ''SOUNDS'', ''SUBTITLE'']"

definition USRDIR_DIRS_ORIGINAL :: "string list" where
  "USRDIR_DIRS_ORIGINAL =
     [''ENVS'', ''FMV'', ''GRAPHICS'', ''GUIMENU'', ''IRX'', ''MISC'', ''SOUNDS'', ''SUBTITLE'']"

datatype status =
    CREATED
  | EXISTS_VALID
  | EXISTS_MISSING_SOURCEPATH
  | EXISTS_INVALID_SUBDIRS
  | ERROR_CREATE
  | ERROR_READ
  | ERROR_CONFIG_UPDATE
  | ERROR_INVALID_SOURCEPATH_DIR
  | USER_PROVIDED_PATH_INVALID
  | ERROR_FILE_OPERATION

subsection \<open>check_dirs_exist (lines 50 to 66)\<close>

definition check_dirs_exist :: "node \<Rightarrow> string \<Rightarrow> string list \<Rightarrow> string \<Rightarrow> bool \<times> event list" where
  "check_dirs_exist fs base_path required_dirs list_name =
     (if \<not> os_path_isdir fs base_path then
        (False, [Say RED ''Error: The base path {} provided for checking subdirs is not a valid directory.''
                   [Txt base_path]])
      else
        let checking = (if list_name \<noteq> [] then Say CYAN ''Checking against list {}:'' [Txt list_name]
                        else Say CYAN ''Checking against list:'' []);
            missing = filter (\<lambda>dir_name. \<not> os_path_isdir fs (os_path_join base_path dir_name)) required_dirs
        in if missing = [] then
             (True, [checking,
                     Say DARK_GREEN ''Success: All {} directories from this list found in {}.''
                       [Num (length required_dirs), Txt base_path]])
           else (False, [checking]))"

subsection \<open>Validation against either list (lines 142 to 147 and 344 to 350)\<close>

text \<open>
  The result is \<^verbatim>\<open>found_original\<close>, \<^verbatim>\<open>found_usrdir\<close> and what was printed. The second
  list is checked only when the first did not match. The two places differ in the colour
  of one message (yellow at line 146, blue at line 349), which is the parameter \<open>c\<close>.
\<close>

definition validate_subdirs :: "colour \<Rightarrow> node \<Rightarrow> string \<Rightarrow> bool \<times> bool \<times> event list" where
  "validate_subdirs c fs path_to_validate =
     (let (found_original, out1) =
            check_dirs_exist fs path_to_validate USRDIR_DIRS_ORIGINAL ''USRDIR_DIRS_ORIGINAL''
      in if \<not> found_original then
           (let (found_usrdir, out2) = check_dirs_exist fs path_to_validate USRDIR_DIRS ''USRDIR_DIRS''
            in (found_original, found_usrdir,
                out1 @ [Say c ''Info: Did not find all directories from the ORIGINAL list. Checking second list (USRDIR_DIRS)...'' []]
                     @ out2))
         else (found_original, False, out1))"

text \<open>Line 354: the name of the list that is reported when the validation passed.\<close>

definition matched_list_name :: "bool \<Rightarrow> string" where
  "matched_list_name found_usrdir = (if found_usrdir then ''USRDIR_DIRS'' else ''USRDIR_DIRS_ORIGINAL'')"

subsection \<open>The root that is validated (lines 327 to 341)\<close>

text \<open>
  When the effective path has a directory \<^verbatim>\<open>USRDIR\<close>, that directory is validated (as a
  \<^verbatim>\<open>Path\<close> object, line 334); otherwise the effective path itself, the string it was.
  Only \<^verbatim>\<open>is_dir\<close> is asked of the file system, and two or three messages are printed.
\<close>

definition resolve_validation_root :: "node \<Rightarrow> string \<Rightarrow> pyval \<times> event list" where
  "resolve_validation_root fs effective_source_path =
     (let potential_usrdir_path = os_path_join effective_source_path ''USRDIR'' in
      if os_path_isdir fs potential_usrdir_path then
        (PPath potential_usrdir_path,
         [Say BLUE ''Info: Found USRDIR subdirectory within effective path.'' [],
          Say BLUE ''Info: Will check for required subdirectories inside: {}'' [Txt potential_usrdir_path],
          Say BLUE ''Info: Using {} for subdirectory validation due to found USRDIR.''
            [Txt potential_usrdir_path]])
      else
        (PStr effective_source_path,
         [Say BLUE ''Info: USRDIR subdirectory not found within effective path {}.''
            [Txt effective_source_path],
          Say BLUE ''Info: Will check for required subdirectories directly inside: {}''
            [Txt effective_source_path]]))"

text \<open>The text of a path value, as \<^verbatim>\<open>os.path\<close> and \<^verbatim>\<open>Path(...)\<close> read it.\<close>

fun path_text :: "pyval \<Rightarrow> string" where
  "path_text (PStr s) = s"
| "path_text (PPath s) = s"
| "path_text (PInt i) = []"
| "path_text (PBool b) = []"
| "path_text PNone = []"
| "path_text (PList xs) = []"
| "path_text (PDict kvs) = []"

text \<open>The resolution as an operation from a root to a root.\<close>

definition validation_root :: "node \<Rightarrow> string \<Rightarrow> string" where
  "validation_root fs root = path_text (fst (resolve_validation_root fs root))"

subsection \<open>Reading and writing files\<close>

text \<open>\<^verbatim>\<open>str.strip()\<close>: white space is removed at both ends.\<close>

definition is_space :: "char \<Rightarrow> bool" where
  "is_space c = ((of_char c :: nat) \<in> {9, 10, 11, 12, 13, 28, 29, 30, 31, 32, 133, 160})"

definition strip :: "string \<Rightarrow> string" where
  "strip s = rev (dropWhile is_space (rev (dropWhile is_space s)))"

text \<open>The node at a path is replaced, or created in a directory that exists.\<close>

fun put_node :: "node \<Rightarrow> string list \<Rightarrow> node \<Rightarrow> node option" where
  "put_node n [] new = Some new"
| "put_node (File p d) (c # cs) new = None"
| "put_node (Dir es) (c # cs) new =
     (if cs = [] then Some (Dir (dict_set c new es))
      else case map_of es c of
             None \<Rightarrow> None
           | Some ch \<Rightarrow> (case put_node ch cs new of
                          None \<Rightarrow> None
                        | Some ch' \<Rightarrow> Some (Dir (dict_set c ch' es))))"

text \<open>
  \<^verbatim>\<open>open(p, 'w')\<close> succeeds on a file that may be written, and on a new name in a directory
  that exists; it raises \<^verbatim>\<open>OSError\<close> on a directory, on a file that may not be written and
  where the directory is missing. After it the file is empty, then written.
\<close>

definition can_open_w :: "node \<Rightarrow> string \<Rightarrow> bool" where
  "can_open_w fs p =
     (let cs = split_path p in
      cs \<noteq> [] \<and>
      (case get_node fs cs of
         Some (File m d) \<Rightarrow> m = ReadWrite
       | Some (Dir es) \<Rightarrow> False
       | None \<Rightarrow> (case get_node fs (butlast cs) of Some (Dir es) \<Rightarrow> True | _ \<Rightarrow> False)))"

definition write_data :: "node \<Rightarrow> string \<Rightarrow> fdata \<Rightarrow> node" where
  "write_data fs p d =
     (case put_node fs (split_path p) (File ReadWrite d) of None \<Rightarrow> fs | Some fs' \<Rightarrow> fs')"

text \<open>
  \<^verbatim>\<open>with open(p, 'w', encoding='utf-8') as f: json.dump(v, f, indent=4, ensure_ascii=False)\<close>.
  The result says whether no exception was raised. When \<^verbatim>\<open>open\<close> fails the file system is
  as before; when \<^verbatim>\<open>json.dump\<close> fails the file has been opened already, and is left torn.
\<close>

definition dump_to_file :: "node \<Rightarrow> string \<Rightarrow> pyval \<Rightarrow> bool \<times> node" where
  "dump_to_file fs p v =
     (if \<not> can_open_w fs p then (False, fs)
      else if serialisable v then (True, write_data fs p (Doc v))
      else (False, write_data fs p Torn))"

text \<open>
  \<^verbatim>\<open>with open(p, 'r', encoding='utf-8') as f: json.load(f)\<close>; \<open>None\<close> is any exception
  (no such file, a directory, no access, no JSON text).
\<close>

definition load_from_file :: "node \<Rightarrow> string \<Rightarrow> pyval option" where
  "load_from_file fs p =
     (case lookup fs p of
        Some (File m (Doc v)) \<Rightarrow> if m \<noteq> NoAccess \<and> serialisable v then Some v else None
      | _ \<Rightarrow> None)"

subsection \<open>Updating the configuration (lines 174 to 178, 310 to 316, 359 to 365)\<close>

text \<open>
  The three places run the same statements with a key and a value:
  \<^verbatim>\<open>if "RemakeEngine" not in config_data: config_data["RemakeEngine"] = {}\<close>,
  \<^verbatim>\<open>if "Directories" not in config_data["RemakeEngine"]: config_data["RemakeEngine"]["Directories"] = {}\<close>,
  \<^verbatim>\<open>config_data["RemakeEngine"]["Directories"][key] = value\<close>.
  \<open>None\<close> is an exception. Where \<^verbatim>\<open>config_data\<close>, or what it holds under one of the two
  names, is no dictionary, one of the statements raises \<^verbatim>\<open>TypeError\<close> before anything has
  been changed.
\<close>

definition set_directories_key :: "pyval \<Rightarrow> string \<Rightarrow> pyval \<Rightarrow> pyval option" where
  "set_directories_key config_data key v =
     (case config_data of
        PDict doc \<Rightarrow>
          (let doc1 = (if ''RemakeEngine'' \<notin> set (map fst doc)
                       then dict_set ''RemakeEngine'' (PDict []) doc else doc)
           in case map_of doc1 ''RemakeEngine'' of
                Some (PDict re) \<Rightarrow>
                  (let re1 = (if ''Directories'' \<notin> set (map fst re)
                              then dict_set ''Directories'' (PDict []) re else re)
                   in case map_of re1 ''Directories'' of
                        Some (PDict ds) \<Rightarrow>
                          Some (PDict (dict_set ''RemakeEngine''
                                  (PDict (dict_set ''Directories'' (PDict (dict_set key v ds)) re1))
                                  doc1))
                      | _ \<Rightarrow> None)
              | _ \<Rightarrow> None)
      | _ \<Rightarrow> None)"

text \<open>
  One \<^verbatim>\<open>try\<close> block: the update in memory, then the file. The result is whether the block
  ran without an exception, \<^verbatim>\<open>config_data\<close> and the file system after it.
\<close>

definition update_config :: "node \<Rightarrow> string \<Rightarrow> pyval \<Rightarrow> string \<Rightarrow> pyval \<Rightarrow> bool \<times> pyval \<times> node" where
  "update_config fs config_file_path config_data key v =
     (case set_directories_key config_data key v of
        None \<Rightarrow> (False, config_data, fs)
      | Some config_data' \<Rightarrow>
          (let (ok, fs') = dump_to_file fs config_file_path config_data'
           in (ok, config_data', fs')))"

text \<open>Lines 89 to 95.\<close>

definition default_data :: "string \<Rightarrow> pyval" where
  "default_data project_base_dir =
     PDict [(''RemakeEngine'',
             PDict [(''Config'', PDict [(''project_path'', PStr project_base_dir)]),
                    (''Directories'', PDict [(''TSGPS2SourcePath'', PStr [])]),
                    (''Tools'', PDict [])])]"

text \<open>What a file holds under \<^verbatim>\<open>RemakeEngine.Directories\<close> for a key, if it is a JSON document.\<close>

definition stored_path :: "node \<Rightarrow> string \<Rightarrow> string \<Rightarrow> pyval option" where
  "stored_path fs config_file_path key =
     (case load_from_file fs config_file_path of
        Some (PDict doc) \<Rightarrow>
          (case map_of doc ''RemakeEngine'' of
             Some (PDict re) \<Rightarrow>
               (case map_of re ''Directories'' of
                  Some (PDict ds) \<Rightarrow> map_of ds key
                | _ \<Rightarrow> None)
           | _ \<Rightarrow> None)
      | _ \<Rightarrow> None)"

subsection \<open>Directories and whole trees\<close>

text \<open>
  \<^verbatim>\<open>os.makedirs(p, exist_ok=True)\<close>: the missing directories of the path are created. It
  raises \<^verbatim>\<open>OSError\<close> (here \<open>None\<close>) where a file stands on the path; nothing has been
  created then.
\<close>

fun mkdirs :: "node \<Rightarrow> string list \<Rightarrow> node option" where
  "mkdirs (File p d) cs = None"
| "mkdirs (Dir es) [] = Some (Dir es)"
| "mkdirs (Dir es) (c # cs) =
     (case map_of es c of
        None \<Rightarrow> map_option (\<lambda>ch. Dir (dict_set c ch es)) (mkdirs (Dir []) cs)
      | Some ch \<Rightarrow> map_option (\<lambda>ch. Dir (dict_set c ch es)) (mkdirs ch cs))"

text \<open>
  The files below a node: the sum that lines 214 to 217 take over \<^verbatim>\<open>os.walk\<close>, which
  yields the file names of every directory of the tree once.
\<close>

fun count_files :: "node \<Rightarrow> nat" and count_entries :: "(string \<times> node) list \<Rightarrow> nat" where
  "count_files (File p d) = 1"
| "count_files (Dir es) = count_entries es"
| "count_entries [] = 0"
| "count_entries (e # es) = count_files (snd e) + count_entries es"

text \<open>
  \<^verbatim>\<open>shutil.copy2(src, dst)\<close> of a file with mode \<open>m\<close> and data \<open>d\<close>: into the directory
  \<^verbatim>\<open>dst\<close> when there is one, else onto the name \<^verbatim>\<open>dst\<close>. \<open>None\<close> is \<^verbatim>\<open>OSError\<close>: the source
  may not be read, or the target may not be written. The mode is copied with the data.
\<close>

definition copy2 :: "node \<Rightarrow> perm \<Rightarrow> fdata \<Rightarrow> string list \<Rightarrow> string \<Rightarrow> node option" where
  "copy2 fs m d dst name =
     (if m = NoAccess then None
      else
        let target = (case get_node fs dst of Some (Dir es) \<Rightarrow> dst @ [name] | _ \<Rightarrow> dst)
        in case get_node fs target of
             Some (Dir es) \<Rightarrow> None
           | Some (File m' d') \<Rightarrow> if m' = ReadWrite then put_node fs target (File m d) else None
           | None \<Rightarrow>
               (if target = [] then None
                else case get_node fs (butlast target) of
                       Some (Dir es) \<Rightarrow> put_node fs target (File m d)
                     | _ \<Rightarrow> None))"

text \<open>
  The state of a running \<^verbatim>\<open>shutil.copytree\<close>: the file system, the counter of
  \<^verbatim>\<open>copy_with_progress\<close>, the number of entries in \<^verbatim>\<open>errors\<close>, and what was written to the
  console.
\<close>

record copying =
  disk :: node
  copied_files_count :: nat
  errors :: nat
  shown :: "event list"

text \<open>
  The loop of \<^verbatim>\<open>copytree\<close> over the entries of a source directory, read when the copy
  starts. \<open>progress\<close> is \<open>Some total_files\<close> for the copy function of lines 238 to 249 and
  \<open>None\<close> for plain \<^verbatim>\<open>copy2\<close>. A file is copied; when that raises, the error is collected
  and the loop goes on, and neither the counter nor the console changes (line 241 raises
  before line 242). A directory is created at the destination and copied in turn; when
  creating it raises, that is one more collected error.
\<close>

fun copy_entry :: "nat option \<Rightarrow> string list \<Rightarrow> string \<Rightarrow> node \<Rightarrow> copying \<Rightarrow> copying"
  and copy_entries :: "nat option \<Rightarrow> string list \<Rightarrow> (string \<times> node) list \<Rightarrow> copying \<Rightarrow> copying" where
  "copy_entry progress dst name (File m d) st =
     (case copy2 (disk st) m d (dst @ [name]) name of
        None \<Rightarrow> st\<lparr>errors := Suc (errors st)\<rparr>
      | Some fs' \<Rightarrow>
          (case progress of
             None \<Rightarrow> st\<lparr>disk := fs'\<rparr>
           | Some total_files \<Rightarrow>
               st\<lparr>disk := fs',
                  copied_files_count := Suc (copied_files_count st),
                  shown := shown st @ [Progress (Suc (copied_files_count st)) total_files]\<rparr>))"
| "copy_entry progress dst name (Dir es) st =
     (case mkdirs (disk st) (dst @ [name]) of
        None \<Rightarrow> st\<lparr>errors := Suc (errors st)\<rparr>
      | Some fs' \<Rightarrow> copy_entries progress (dst @ [name]) es (st\<lparr>disk := fs'\<rparr>))"
| "copy_entries progress dst [] st = st"
| "copy_entries progress dst (e # es) st =
     copy_entries progress dst es (copy_entry progress dst (fst e) (snd e) st)"

text \<open>
  \<^verbatim>\<open>shutil.copytree(src, dst, dirs_exist_ok=True, copy_function=...)\<close>. It raises (the
  boolean is false) when the source is no directory, when the destination cannot be
  created, and at its end when errors were collected; what has been copied by then stays.
  The source is read when the copy starts: a destination inside the source is not followed.
\<close>

definition copytree :: "nat option \<Rightarrow> node \<Rightarrow> string \<Rightarrow> string \<Rightarrow> bool \<times> copying" where
  "copytree progress fs src dst =
     (let start = \<lparr>disk = fs, copied_files_count = 0, errors = 0, shown = []\<rparr> in
      case lookup fs src of
        Some (Dir es) \<Rightarrow>
          (case mkdirs fs (split_path dst) of
             None \<Rightarrow> (False, start)
           | Some fs1 \<Rightarrow>
               (let st = copy_entries progress (split_path dst) es (start\<lparr>disk := fs1\<rparr>)
                in (errors st = 0, st)))
      | _ \<Rightarrow> (False, start))"

fun remove_node :: "node \<Rightarrow> string list \<Rightarrow> node option" where
  "remove_node n [] = None"
| "remove_node (File p d) (c # cs) = None"
| "remove_node (Dir es) (c # cs) =
     (if cs = [] then
        (case map_of es c of None \<Rightarrow> None | Some ch \<Rightarrow> Some (Dir (filter (\<lambda>e. fst e \<noteq> c) es)))
      else case map_of es c of
             None \<Rightarrow> None
           | Some ch \<Rightarrow> map_option (\<lambda>ch. Dir (dict_set c ch es)) (remove_node ch cs))"

text \<open>
  \<^verbatim>\<open>shutil.move(src, dst)\<close> where \<^verbatim>\<open>dst\<close> does not exist, which line 278 has made sure of.
  A directory is not moved into itself. Where the directory that is to hold \<^verbatim>\<open>dst\<close> exists
  the tree is renamed; else it is copied with \<^verbatim>\<open>copy2\<close> and the source removed, and a
  failed copy leaves the source and what was copied. The boolean is false for an exception.
\<close>

definition shutil_move :: "node \<Rightarrow> string \<Rightarrow> string \<Rightarrow> bool \<times> node" where
  "shutil_move fs src dst =
     (let s = split_path src; t = split_path dst in
      case get_node fs s of
        None \<Rightarrow> (False, fs)
      | Some n \<Rightarrow>
          if take (length s) t = s \<or> get_node fs t \<noteq> None then (False, fs)
          else
            (case get_node fs (butlast t) of
               Some (Dir es) \<Rightarrow>
                 (case remove_node fs s of
                    None \<Rightarrow> (False, fs)
                  | Some fs1 \<Rightarrow>
                      (case put_node fs1 t n of None \<Rightarrow> (False, fs) | Some fs2 \<Rightarrow> (True, fs2)))
             | _ \<Rightarrow>
                 (let (ok, st) = copytree None fs src dst in
                  if ok then
                    (case remove_node (disk st) s of
                       None \<Rightarrow> (False, disk st)
                     | Some fs2 \<Rightarrow> (True, fs2))
                  else (False, disk st))))"

subsection \<open>The outcome of a run\<close>

text \<open>
  \<^verbatim>\<open>check_or_create_config\<close> returns a status and a path or \<^verbatim>\<open>None\<close>, or it is left by an
  exception that nothing catches: \<^verbatim>\<open>EOFError\<close> when \<^verbatim>\<open>input\<close> finds no further line, and
  \<^verbatim>\<open>UnboundLocalError\<close> when line 378 reads \<^verbatim>\<open>choice\<close>, which only the menu assigns.
\<close>

datatype exn = EOFError | UnboundLocalError

datatype outcome = Returned status "pyval option" | Raised exn

record run =
  outcome_of :: outcome
  disk_after :: node
  printed :: "event list"
  unread :: "string list"

text \<open>
  The working directory is the root of the tree, so \<^verbatim>\<open>os.path.abspath\<close> leaves the path
  it is given.
\<close>

definition os_path_abspath :: "string \<Rightarrow> string" where
  "os_path_abspath p = p"

definition os_path_basename :: "string \<Rightarrow> string" where
  "os_path_basename p = rev (takeWhile (\<lambda>c. \<not> is_sep c) (rev p))"

text \<open>The two messages after each attempt to save (lines 179 to 182, 317 to 320, 366 to 369).\<close>

definition save_messages :: "string \<Rightarrow> bool \<Rightarrow> event list" where
  "save_messages filename ok =
     (if ok then [Say GREEN ''Success: Config file {} updated.'' [Txt filename]]
      else [Say RED ''Error updating config file {}: {}'' [Txt filename],
            Say YELLOW ''Warning: Proceeding with the provided path, but config file was not saved.'' []])"

subsection \<open>Check 2: the path in the file (lines 122 to 158)\<close>

text \<open>
  The result is \<^verbatim>\<open>source_path_valid_in_file\<close>, the path when it is valid, and the messages.
  An \<^verbatim>\<open>AttributeError\<close> of the three \<^verbatim>\<open>get\<close> calls is passed over (line 157).
\<close>

definition check_source_path :: "node \<Rightarrow> pyval \<Rightarrow> bool \<times> string \<times> event list" where
  "check_source_path fs config_data =
     (case py_get config_data ''RemakeEngine'' (PDict []) of
        None \<Rightarrow> (False, [], [])
      | Some re \<Rightarrow>
          (case py_get re ''Directories'' (PDict []) of
             None \<Rightarrow> (False, [], [])
           | Some ds \<Rightarrow>
               (case py_get ds ''TSGPS2SourcePath'' PNone of
                  Some (PStr path_from_config) \<Rightarrow>
                    if path_from_config \<noteq> [] \<and> strip path_from_config \<noteq> [] then
                      if os_path_isdir fs path_from_config then
                        (let potential_usrdir_path = os_path_join path_from_config ''USRDIR'';
                             usrdir = os_path_isdir fs potential_usrdir_path;
                             path_to_validate = (if usrdir then potential_usrdir_path else path_from_config);
                             out1 = (if usrdir then
                                       [Say BLUE ''Info: Found USRDIR subdirectory within effective path.'' [],
                                        Say BLUE ''Info: Will check for required subdirectories inside: {}''
                                          [Txt potential_usrdir_path],
                                        Say BLUE ''Info: Using {} for subdirectory validation due to found USRDIR.''
                                          [Txt path_to_validate]]
                                     else []);
                             out2 = [Say CYAN ''Found SourcePath in config: {}'' [Txt path_from_config],
                                     Say CYAN ''Validating subdirectories in {}...'' [Txt path_to_validate]];
                             (found_original, found_usrdir, out3) = validate_subdirs YELLOW fs path_to_validate
                         in if found_usrdir \<or> found_original then
                              (True, path_from_config, out1 @ out2 @ out3)
                            else
                              (False, path_from_config,
                               out1 @ out2 @ out3 @
                               [Say RED ''Error: Validation failed. Could not find all required subdirectories from *either* list within {}.''
                                  [Txt path_to_validate]]))
                      else
                        (False, path_from_config,
                         [Say YELLOW ''Warning: Configured SourcePath {} is not currently a valid directory.''
                            [Txt path_from_config]])
                    else (False, path_from_config, [])
                | _ \<Rightarrow> (False, [], []))))"

subsection \<open>The prompt for a source directory (lines 163 to 185)\<close>

text \<open>
  The operator's lines are a list. The loop leaves with a directory, \<^verbatim>\<open>config_data\<close> and
  the file system after the attempt to save it under \<^verbatim>\<open>MainTSGPS2SourcePath\<close>; \<open>None\<close> is
  the \<^verbatim>\<open>EOFError\<close> of \<^verbatim>\<open>input\<close> when the lines have run out.
\<close>

fun prompt_loop ::
  "string \<Rightarrow> pyval \<Rightarrow> node \<Rightarrow> string list \<Rightarrow> (string \<times> pyval \<times> node) option \<times> event list \<times> string list" where
  "prompt_loop filename config_data fs [] =
     (None, [Say CYAN ''Please enter the full path to the source directory:'' [], Ask ''> ''], [])"
| "prompt_loop filename config_data fs (line # rest) =
     (let asked = [Say CYAN ''Please enter the full path to the source directory:'' [], Ask ''> ''];
          user_input_path = strip line
      in if user_input_path = [] then
           (let (r, out, rest') = prompt_loop filename config_data fs rest
            in (r, asked @ [Say YELLOW ''Path cannot be empty. Please try again.'' []] @ out, rest'))
         else if os_path_isdir fs user_input_path then
           (let (ok, config_data', fs') =
                  update_config fs (os_path_abspath filename) config_data
                    ''MainTSGPS2SourcePath'' (PStr user_input_path)
            in (Some (user_input_path, config_data', fs'),
                asked @
                [Say DARK_GREEN ''Path {} is a valid directory.'' [Txt user_input_path],
                 Say YELLOW ''Attempting to update {} with user input path...'' [Txt filename]]
                @ save_messages filename ok,
                rest))
         else
           (let (r, out, rest') = prompt_loop filename config_data fs rest
            in (r, asked @ [Say RED ''Error: The path {} is not a valid directory. Please try again.''
                              [Txt user_input_path]] @ out,
                rest')))"

subsection \<open>Check 3: copy, move or use in place (lines 204 to 306)\<close>

text \<open>
  What one pass through the menu loop does: \<open>Again\<close> is \<^verbatim>\<open>continue\<close>, \<open>Break p\<close> is
  \<^verbatim>\<open>break\<close> with \<^verbatim>\<open>effective_source_path = p\<close>, \<open>Return s\<close> is \<^verbatim>\<open>return s, None\<close>.
\<close>

datatype step = Again | Break string | Return status

text \<open>The files below a path, as lines 214 to 217 count them; \<^verbatim>\<open>os.walk\<close> yields nothing for what is no directory.\<close>

definition total_files_of :: "node \<Rightarrow> string \<Rightarrow> nat" where
  "total_files_of fs p = (case lookup fs p of Some (Dir es) \<Rightarrow> count_entries es | _ \<Rightarrow> 0)"

text \<open>
  Option 1 (lines 210 to 273). With no file to copy the destination is created inside the
  \<^verbatim>\<open>try\<close> of line 213, so its \<^verbatim>\<open>OSError\<close> is caught at line 226 and the loop goes on.
\<close>

definition copy_option :: "string \<Rightarrow> string \<Rightarrow> node \<Rightarrow> step \<times> node \<times> event list" where
  "copy_option path_from_config local_data_path fs =
     (let total_files = total_files_of fs path_from_config;
          out1 = [Say GREEN ''Preparing to copy files from {} to {}...''
                    [Txt path_from_config, Txt local_data_path],
                  Say CYAN ''Calculating total number of files...'' [],
                  Say CYAN ''Found {} files to copy.'' [Num total_files]]
      in if total_files = 0 then
           (let out2 = out1 @ [Say GREEN ''Source directory is empty or contains no files. Nothing to copy.'' []]
            in case mkdirs fs (split_path local_data_path) of
                 Some fs' \<Rightarrow> (Break local_data_path, fs', out2)
               | None \<Rightarrow>
                   (Again, fs,
                    out2 @ [Say RED ''Error accessing source path {} to count files: {}'' [Txt path_from_config],
                            Say RED ''Cannot proceed with file operations.'' []]))
         else
           (let (ok, st) = copytree (Some total_files) fs path_from_config local_data_path
            in if ok then
                 (Break local_data_path, disk st,
                  out1 @ shown st @ [LineClear, Say GREEN ''Copy successful.'' []])
               else
                 (Return ERROR_FILE_OPERATION, disk st,
                  out1 @ shown st @
                  [LineClear,
                   Say RED ''Error during copy operation: {}'' [],
                   Say RED ''Cannot proceed with file operations.'' []])))"

text \<open>Option 2 (lines 277 to 297).\<close>

definition move_option :: "string \<Rightarrow> string \<Rightarrow> node \<Rightarrow> step \<times> node \<times> event list" where
  "move_option path_from_config local_data_path fs =
     (let out1 = [Say RED ''Attempting to move files from {} to {}...''
                    [Txt path_from_config, Txt local_data_path]]
      in if os_path_exists fs local_data_path then
           (Again, fs,
            out1 @ [Say RED ''Error: Destination path {} already exists. Cannot move.'' [Txt local_data_path],
                    Say YELLOW ''Please remove the existing directory or choose Copy (option 1) or Use original (option 3).'' []])
         else
           (let (ok, fs') = shutil_move fs path_from_config local_data_path
            in if ok then (Break local_data_path, fs', out1 @ [Say GREEN ''Move successful.'' []])
               else (Return ERROR_FILE_OPERATION, fs',
                     out1 @ [Say RED ''Error during move operation: {}'' [],
                             Say RED ''Cannot proceed with file operations.'' []])))"

text \<open>Option 3 (lines 300 to 303).\<close>

definition use_option :: "string \<Rightarrow> node \<Rightarrow> step \<times> node \<times> event list" where
  "use_option path_from_config fs =
     (Break path_from_config, fs,
      [Say CYAN ''Using original path {} directly.'' [Txt path_from_config],
       Say YELLOW ''Warning: Ensure you have a backup, as subsequent operations might modify these files.'' []])"

text \<open>
  How the loop is left: with the choice and the effective path, with a status, or by the
  \<^verbatim>\<open>EOFError\<close> of \<^verbatim>\<open>input\<close>.
\<close>

datatype chosen = Effective string string | Fatal status | Ended

fun choice_loop :: "string \<Rightarrow> string \<Rightarrow> node \<Rightarrow> string list \<Rightarrow> chosen \<times> node \<times> event list \<times> string list" where
  "choice_loop path_from_config local_data_path fs [] =
     (Ended, fs, [Ask ''Enter your choice (1, 2, or 3): ''], [])"
| "choice_loop path_from_config local_data_path fs (line # rest) =
     (let choice = strip line;
          (s, fs', out) =
            (if choice = ''1'' then copy_option path_from_config local_data_path fs
             else if choice = ''2'' then move_option path_from_config local_data_path fs
             else if choice = ''3'' then use_option path_from_config fs
             else (Again, fs, [Say YELLOW ''Invalid choice. Please enter 1, 2, or 3.'' []]));
          asked = Ask ''Enter your choice (1, 2, or 3): ''
      in case s of
           Again \<Rightarrow>
             (let (r, fs'', out', rest') = choice_loop path_from_config local_data_path fs' rest
              in (r, fs'', asked # out @ out', rest'))
         | Break effective_source_path \<Rightarrow> (Effective choice effective_source_path, fs', asked # out, rest)
         | Return st \<Rightarrow> (Fatal st, fs', asked # out, rest))"

text \<open>
  Lines 192 to 306. When the local data path exists the menu is skipped: the effective
  path is the local one and \<^verbatim>\<open>choice\<close> stays unassigned (\<open>None\<close>).
\<close>

datatype handled = Proceed "string option" string | Leave outcome

definition choose_handling ::
  "string \<Rightarrow> string \<Rightarrow> node \<Rightarrow> string list \<Rightarrow> handled \<times> node \<times> event list \<times> string list" where
  "choose_handling path_from_config local_data_path fs inputs =
     (let out1 = [Say MAGENTA ''--- Source Path Handling ---'' [],
                  Say CYAN ''Validated source path: {}'' [Txt path_from_config],
                  Say CYAN ''Local project data path would be: {}'' [Txt local_data_path]]
      in if \<not> os_path_exists fs local_data_path then
           (let out2 = [Say YELLOW ''Choose how to use the source files:'' [],
                        Say CYAN ''1) from {} to local {} (Recommended, Safe)''
                          [Txt (os_path_basename path_from_config), Txt (os_path_basename local_data_path)],
                        Say CYAN ''2) from {} to local {} (Warning: Deletes original Files at Source location)''
                          [Txt (os_path_basename path_from_config), Txt (os_path_basename local_data_path)],
                        Say CYAN ''3) {} directly (Warning: This Tool might modify/corrupt original files)''
                          [Txt (os_path_basename path_from_config)]];
                (r, fs', out3, rest) = choice_loop path_from_config local_data_path fs inputs
            in case r of
                 Effective choice effective_source_path \<Rightarrow>
                   (Proceed (Some choice) effective_source_path, fs', out1 @ out2 @ out3, rest)
               | Fatal st \<Rightarrow> (Leave (Returned st None), fs', out1 @ out2 @ out3, rest)
               | Ended \<Rightarrow> (Leave (Raised EOFError), fs', out1 @ out2 @ out3, rest))
         else (Proceed None local_data_path, fs, out1, inputs))"

subsection \<open>Saving the effective path and validating it (lines 308 to 383)\<close>

text \<open>Lines 308 to 320: the effective path is stored and saved; a failure is printed, no more.\<close>

definition persist_effective ::
  "string \<Rightarrow> pyval \<Rightarrow> string \<Rightarrow> node \<Rightarrow> bool \<times> pyval \<times> node \<times> event list" where
  "persist_effective filename config_data effective_source_path fs =
     (let (ok, config_data', fs') =
            update_config fs (os_path_abspath filename) config_data
              ''TSGPS2SourcePath'' (PStr effective_source_path)
      in (ok, config_data', fs',
          Say YELLOW ''Attempting to update {} with local Source Path...'' [Txt filename]
          # save_messages filename ok))"

text \<open>
  Lines 323 to 383. \<open>choice\<close> is \<open>None\<close> while the variable is unassigned; line 378 reads
  it when the validated path is the effective one and differs from \<^verbatim>\<open>path_from_config\<close>.
  A \<^verbatim>\<open>Path\<close> never equals a string, so the comparison of line 375 holds with \<^verbatim>\<open>USRDIR\<close>.
\<close>

definition check_effective ::
  "string \<Rightarrow> pyval \<Rightarrow> string \<Rightarrow> string option \<Rightarrow> string \<Rightarrow> node \<Rightarrow> outcome \<times> node \<times> event list" where
  "check_effective filename config_data path_from_config choice effective_source_path fs =
     (let out1 = [Say BLUE ''Using effective source path for validation: {}'' [Txt effective_source_path]];
          (path_to_validate, out2) = resolve_validation_root fs effective_source_path;
          out3 = [Say CYAN ''Starting subdirectory validation using path: {}...''
                    [Txt (path_text path_to_validate)]];
          (found_original, found_usrdir, out4) = validate_subdirs BLUE fs (path_text path_to_validate)
      in if found_usrdir \<or> found_original then
           (let out5 = [Say GREEN ''Success: Validation passed. All required subdirectories from list {} found within {}.''
                          [Txt (matched_list_name found_usrdir), Txt (path_text path_to_validate)],
                        Say YELLOW ''Attempting to update {} with Valid Source Path...'' [Txt filename]];
                (ok, config_data', fs') =
                  update_config fs (os_path_abspath filename) config_data
                    ''TSGPS2SourcePath'' path_to_validate
            in (Returned EXISTS_VALID (Some path_to_validate), fs',
                out1 @ out2 @ out3 @ out4 @ out5 @ save_messages filename ok))
         else
           (let out5 = [Say RED ''Error: Validation failed. Could not find all required subdirectories from *either* list within {}.''
                          [Txt (path_text path_to_validate)],
                        Say GRAY ''Checked within path: {}.'' [Txt (path_text path_to_validate)]];
                out7 = [Say GRAY ''Expected all subdirs from list USRDIR_DIRS OR all from list USRDIR_DIRS_ORIGINAL.'' [],
                        Say RED ''Action Required: Verify the contents of {}.'' [Txt (path_text path_to_validate)]];
                failed = Returned EXISTS_INVALID_SUBDIRS (Some path_to_validate)
            in if path_to_validate \<noteq> PStr effective_source_path then
                 (failed, fs,
                  out1 @ out2 @ out3 @ out4 @ out5 @
                  [Say GRAY ''(This path was checked because USRDIR was found inside {})''
                     [Txt effective_source_path]] @ out7)
               else if effective_source_path \<noteq> path_from_config then
                 (case choice of
                    None \<Rightarrow> (Raised UnboundLocalError, fs, out1 @ out2 @ out3 @ out4 @ out5)
                  | Some ch \<Rightarrow>
                      (failed, fs,
                       out1 @ out2 @ out3 @ out4 @ out5 @
                       [Say GRAY ''(This path resulted from a {} operation based on original {})''
                          [Txt (if ch = ''1'' then ''Copy'' else ''Move''), Txt path_from_config]] @ out7))
               else (failed, fs, out1 @ out2 @ out3 @ out4 @ out5 @ out7)))"

definition revalidate ::
  "string \<Rightarrow> pyval \<Rightarrow> string \<Rightarrow> string option \<Rightarrow> string \<Rightarrow> node \<Rightarrow> outcome \<times> node \<times> event list" where
  "revalidate filename config_data path_from_config choice effective_source_path fs =
     (let (ok, config_data', fs', out1) = persist_effective filename config_data effective_source_path fs;
          (r, fs'', out2) = check_effective filename config_data' path_from_config choice effective_source_path fs'
      in (r, fs'', out1 @ out2))"

subsection \<open>check_or_create_config (lines 69 to 383)\<close>

definition local_data_path_of :: "string \<Rightarrow> string" where
  "local_data_path_of filename =
     os_path_join (os_path_dirname (os_path_abspath filename))
       (''Source'' @ [bslash] @ ''GameFiles'' @ [bslash] @ ''SimpGamePS2'')"

text \<open>Lines 121 to 189: the path of the file, or the one the operator enters.\<close>

definition obtain_source_path ::
  "string \<Rightarrow> pyval \<Rightarrow> node \<Rightarrow> string list \<Rightarrow> (string \<times> pyval \<times> node) option \<times> event list \<times> string list" where
  "obtain_source_path filename config_data fs inputs =
     (let (source_path_valid_in_file, path_from_config, out1) = check_source_path fs config_data
      in if \<not> source_path_valid_in_file then
           (let (r, out2, rest) = prompt_loop filename config_data fs inputs
            in (r,
                out1 @ [Say YELLOW ''Warning: RemakeEngine.Directories.SourcePath in {} is missing, empty, or invalid.''
                          [Txt filename]] @ out2,
                rest))
         else (Some (path_from_config, config_data, fs), out1, inputs))"

text \<open>Lines 110 to 383, once the file has been loaded.\<close>

definition with_config :: "string \<Rightarrow> pyval \<Rightarrow> node \<Rightarrow> string list \<Rightarrow> run" where
  "with_config filename config_data fs inputs =
     (case obtain_source_path filename config_data fs inputs of
        (None, out1, rest) \<Rightarrow>
          \<lparr>outcome_of = Raised EOFError, disk_after = fs, printed = out1, unread = rest\<rparr>
      | (Some (path_from_config, config_data1, fs1), out1, rest) \<Rightarrow>
          if path_from_config = [] then
            \<lparr>outcome_of = Returned USER_PROVIDED_PATH_INVALID None, disk_after = fs1,
             printed = out1 @ [Say RED ''Could not obtain a valid SourcePath. Exiting.'' []],
             unread = rest\<rparr>
          else
            (case choose_handling path_from_config (local_data_path_of filename) fs1 rest of
               (Leave r, fs2, out2, rest2) \<Rightarrow>
                 \<lparr>outcome_of = r, disk_after = fs2, printed = out1 @ out2, unread = rest2\<rparr>
             | (Proceed choice effective_source_path, fs2, out2, rest2) \<Rightarrow>
                 (let (r, fs3, out3) =
                        revalidate filename config_data1 path_from_config choice effective_source_path fs2
                  in \<lparr>outcome_of = r, disk_after = fs3, printed = out1 @ out2 @ out3, unread = rest2\<rparr>)))"

definition check_or_create_config :: "string \<Rightarrow> node \<Rightarrow> string list \<Rightarrow> run" where
  "check_or_create_config filename fs inputs =
     (let config_file_path = os_path_abspath filename;
          project_base_dir = os_path_dirname config_file_path
      in if \<not> os_path_exists fs config_file_path then
           (let (ok, fs') = dump_to_file fs config_file_path (default_data project_base_dir);
                out1 = [Say YELLOW ''File {} not found. Creating it...'' [Txt config_file_path]]
            in if ok then
                 \<lparr>outcome_of = Returned CREATED None, disk_after = fs',
                  printed = out1 @ [Say GREEN ''File {} created successfully.'' [Txt config_file_path]],
                  unread = inputs\<rparr>
               else
                 \<lparr>outcome_of = Returned ERROR_CREATE None, disk_after = fs',
                  printed = out1 @ [Say RED ''Error creating file {}: {}'' [Txt config_file_path]],
                  unread = inputs\<rparr>)
         else
           (let out1 = [Say BLUE ''File {} exists. Verifying content...'' [Txt config_file_path]]
            in case load_from_file fs config_file_path of
                 None \<Rightarrow>
                   \<lparr>outcome_of = Returned ERROR_READ None, disk_after = fs,
                    printed = out1 @ [Say RED ''Error reading or parsing {}: {}'' [Txt config_file_path]],
                    unread = inputs\<rparr>
               | Some config_data \<Rightarrow>
                   (let r = with_config filename config_data fs inputs
                    in r\<lparr>printed := out1 @ printed r\<rparr>)))"

text \<open>What lines 210 to 220 print when the source holds no file.\<close>

definition no_files_messages :: "string \<Rightarrow> string \<Rightarrow> event list" where
  "no_files_messages a b = [Say GREEN ''Preparing to copy files from {} to {}...'' [Txt a, Txt b],
                  Say CYAN ''Calculating total number of files...'' [],
                  Say CYAN ''Found {} files to copy.'' [Num 0],
                  Say GREEN ''Source directory is empty or contains no files. Nothing to copy.'' []]"

section \<open>Example inputs\<close>

text \<open>A tree whose directory \<^verbatim>\<open>game\<close> holds the eight required directories, all empty.\<close>

definition fs_game :: node where
  "fs_game = Dir [(''game'', Dir (map (\<lambda>n. (n, Dir [])) USRDIR_DIRS_ORIGINAL))]"

text \<open>A tree in which \<^verbatim>\<open>disc\<close> holds \<^verbatim>\<open>USRDIR\<close>, which again holds a directory \<^verbatim>\<open>USRDIR\<close>.\<close>

definition fs_nested :: node where
  "fs_nested = Dir [(''disc'', Dir [(''USRDIR'', Dir [(''USRDIR'', Dir [])])])]"

text \<open>A tree in which \<^verbatim>\<open>disc\<close> holds \<^verbatim>\<open>USRDIR\<close>, and that the eight required directories.\<close>

definition fs_disc :: node where
  "fs_disc = Dir [(''disc'', Dir [(''USRDIR'', Dir (map (\<lambda>n. (n, Dir [])) USRDIR_DIRS_ORIGINAL))])]"

text \<open>
  Trees with a project directory \<^verbatim>\<open>proj\<close>. \<open>config_file m\<close> is a \<^verbatim>\<open>project.json\<close> as the
  script creates it, with access mode \<open>m\<close>; \<open>required_dirs\<close> are the eight directories,
  all empty.
\<close>

definition config_file :: "perm \<Rightarrow> node" where
  "config_file m = File m (Doc (default_data ''proj''))"

definition required_dirs :: "(string \<times> node) list" where
  "required_dirs = map (\<lambda>n. (n, Dir [])) USRDIR_DIRS_ORIGINAL"

text \<open>An empty project directory.\<close>

definition fs_fresh :: node where
  "fs_fresh = Dir [(''proj'', Dir [])]"

text \<open>A configuration that may not be written, and a source \<^verbatim>\<open>game\<close> with the eight directories.\<close>

definition fs_readonly :: node where
  "fs_readonly =
     Dir [(''proj'', Dir [(''project.json'', config_file ReadOnly)]), (''game'', Dir required_dirs)]"

text \<open>A source \<^verbatim>\<open>disc\<close> whose \<^verbatim>\<open>USRDIR\<close> holds the eight directories, and one whose \<^verbatim>\<open>USRDIR\<close> is empty.\<close>

definition fs_marker :: node where
  "fs_marker =
     Dir [(''proj'', Dir [(''project.json'', config_file ReadWrite)]),
          (''disc'', Dir [(''USRDIR'', Dir required_dirs)])]"

definition fs_marker_empty :: node where
  "fs_marker_empty =
     Dir [(''proj'', Dir [(''project.json'', config_file ReadWrite)]),
          (''disc'', Dir [(''USRDIR'', Dir [])])]"

text \<open>The project directory holds a file named \<^verbatim>\<open>Source\<close>; the source \<^verbatim>\<open>game\<close> has no file.\<close>

definition fs_source_is_file :: node where
  "fs_source_is_file =
     Dir [(''proj'', Dir [(''project.json'', config_file ReadWrite),
                         (''Source'', File ReadWrite (Blob ''x''))]),
          (''game'', Dir required_dirs)]"

text \<open>The local data directory exists already, and is empty.\<close>

definition fs_local_exists :: node where
  "fs_local_exists =
     Dir [(''proj'', Dir [(''project.json'', config_file ReadWrite),
                         (''Source'', Dir [(''GameFiles'', Dir [(''SimpGamePS2'', Dir [])])])]),
          (''game'', Dir required_dirs)]"

text \<open>A source with the eight directories and two files, one of them in a directory of its own.\<close>

definition fs_two_files :: node where
  "fs_two_files =
     Dir [(''proj'', Dir [(''project.json'', config_file ReadWrite)]),
          (''game'', Dir (required_dirs @
                         [(''a.bin'', File ReadWrite (Blob ''a'')),
                          (''sub'', Dir [(''b.bin'', File ReadOnly (Blob ''b''))])]))]"

section \<open>Properties\<close>

lemma check_dirs_exist_lists_agree:
  "fst (check_dirs_exist fs p USRDIR_DIRS n) = fst (check_dirs_exist fs p USRDIR_DIRS_ORIGINAL m)"
  by (simp add: check_dirs_exist_def USRDIR_DIRS_def USRDIR_DIRS_ORIGINAL_def Let_def)

lemma fs_game_isdir: "os_path_isdir fs_game ''game''"
  by (simp add: fs_game_def os_path_isdir_def lookup_def split_path_def is_sep_def bslash_def)

lemma fs_game_subdirs:
  "\<forall>n \<in> set USRDIR_DIRS_ORIGINAL. os_path_isdir fs_game (os_path_join ''game'' n)"
  by (simp add: fs_game_def USRDIR_DIRS_ORIGINAL_def os_path_isdir_def os_path_join_def
      lookup_def split_path_def is_sep_def bslash_def)

subsection \<open>The validator\<close>

text \<open>
  C5. If \<open>P\<close> is a directory and each of the eight names of the first-tested list
  (\<^verbatim>\<open>USRDIR_DIRS_ORIGINAL\<close>, the spec's Primary) is a directory under \<open>P\<close>, the
  validation reports \<^verbatim>\<open>found_original\<close>, leaves \<^verbatim>\<open>found_usrdir\<close> false, and prints
  exactly the check of the first list and its success: the second list is not checked at
  all, whatever else \<open>P\<close> contains.
\<close>

theorem primary_match_wins:
  assumes "os_path_isdir fs P"
    and "\<forall>n \<in> set USRDIR_DIRS_ORIGINAL. os_path_isdir fs (os_path_join P n)"
  shows "validate_subdirs c fs P =
           (True, False,
            [Say CYAN ''Checking against list {}:'' [Txt ''USRDIR_DIRS_ORIGINAL''],
             Say DARK_GREEN ''Success: All {} directories from this list found in {}.''
               [Num 8, Txt P]])
         \<and> matched_list_name (fst (snd (validate_subdirs c fs P))) = ''USRDIR_DIRS_ORIGINAL''"
proof -
  have "filter (\<lambda>d. \<not> os_path_isdir fs (os_path_join P d)) USRDIR_DIRS_ORIGINAL = []"
    using assms(2) by (simp add: filter_empty_conv)
  then have "check_dirs_exist fs P USRDIR_DIRS_ORIGINAL ''USRDIR_DIRS_ORIGINAL'' =
      (True, [Say CYAN ''Checking against list {}:'' [Txt ''USRDIR_DIRS_ORIGINAL''],
              Say DARK_GREEN ''Success: All {} directories from this list found in {}.''
                [Num 8, Txt P]])"
    using assms(1) by (simp add: check_dirs_exist_def Let_def) (simp add: USRDIR_DIRS_ORIGINAL_def)
  then show ?thesis by (simp add: validate_subdirs_def matched_list_name_def)
qed

theorem primary_match_wins_witness:
  "os_path_isdir fs_game ''game''
   \<and> list_all (\<lambda>n. os_path_isdir fs_game (os_path_join ''game'' n)) USRDIR_DIRS_ORIGINAL
   \<and> validate_subdirs BLUE fs_game ''game'' =
           (True, False,
            [Say CYAN ''Checking against list {}:'' [Txt ''USRDIR_DIRS_ORIGINAL''],
             Say DARK_GREEN ''Success: All {} directories from this list found in {}.''
               [Num 8, Txt ''game'']])
   \<and> matched_list_name (fst (snd (validate_subdirs BLUE fs_game ''game''))) = ''USRDIR_DIRS_ORIGINAL''"
proof -
  have subdirs: "list_all (\<lambda>n. os_path_isdir fs_game (os_path_join ''game'' n)) USRDIR_DIRS_ORIGINAL"
    using fs_game_subdirs by (simp only: list_all_iff)
  show ?thesis
    using primary_match_wins [OF fs_game_isdir fs_game_subdirs, where c = BLUE] fs_game_isdir subdirs
    by blast
qed

text \<open>
  C9. The two lists hold the same names, so a root passes the check against one exactly
  when it passes the check against the other. Hence \<^verbatim>\<open>found_usrdir\<close> is never true, and
  the list named at line 354 is always \<^verbatim>\<open>USRDIR_DIRS_ORIGINAL\<close>.
\<close>

theorem required_lists_equivalent:
  "fst (check_dirs_exist fs root USRDIR_DIRS ''USRDIR_DIRS'')
     = fst (check_dirs_exist fs root USRDIR_DIRS_ORIGINAL ''USRDIR_DIRS_ORIGINAL'')
   \<and> \<not> fst (snd (validate_subdirs c fs root))
   \<and> matched_list_name (fst (snd (validate_subdirs c fs root))) = ''USRDIR_DIRS_ORIGINAL''"
proof -
  have a: "fst (check_dirs_exist fs root USRDIR_DIRS ''USRDIR_DIRS'')
     = fst (check_dirs_exist fs root USRDIR_DIRS_ORIGINAL ''USRDIR_DIRS_ORIGINAL'')"
    by (rule check_dirs_exist_lists_agree)
  have b: "\<not> fst (snd (validate_subdirs c fs root))"
    using a by (auto simp: validate_subdirs_def split: prod.splits)
  show ?thesis using a b by (simp add: matched_list_name_def)
qed

subsection \<open>The validation root\<close>

text \<open>
  C4, as stated: resolving the validation root twice gives the same path as resolving it
  once, for every root. This fails where the directory \<^verbatim>\<open>USRDIR\<close> holds a directory
  \<^verbatim>\<open>USRDIR\<close> of its own: the first resolution of \<^verbatim>\<open>disc\<close> gives \<^verbatim>\<open>disc\USRDIR\<close>, the
  second \<^verbatim>\<open>disc\USRDIR\USRDIR\<close>.
\<close>

theorem validation_root_not_idempotent:
  "validation_root fs_nested (validation_root fs_nested ''disc'')
     \<noteq> validation_root fs_nested ''disc''"
  by code_simp

text \<open>
  C4, amended: the resolution looks one level down only. It is idempotent at every root
  whose \<^verbatim>\<open>USRDIR\<close> directory does not itself hold a directory \<^verbatim>\<open>USRDIR\<close>. It changes
  nothing: \<open>resolve_validation_root\<close> reads the tree and returns a path and messages, as
  lines 327 to 341 only call \<^verbatim>\<open>is_dir\<close> and \<^verbatim>\<open>print\<close>.
\<close>

theorem validation_root_idempotent:
  assumes "\<not> os_path_isdir fs (os_path_join (os_path_join root ''USRDIR'') ''USRDIR'')"
  shows "validation_root fs (validation_root fs root) = validation_root fs root"
  using assms by (auto simp: validation_root_def resolve_validation_root_def Let_def)

theorem validation_root_idempotent_witness:
  "\<not> os_path_isdir fs_disc (os_path_join (os_path_join ''disc'' ''USRDIR'') ''USRDIR'')
   \<and> validation_root fs_disc ''disc'' = os_path_join ''disc'' ''USRDIR''
   \<and> validation_root fs_disc (validation_root fs_disc ''disc'') = validation_root fs_disc ''disc''"
proof -
  have h: "\<not> os_path_isdir fs_disc (os_path_join (os_path_join ''disc'' ''USRDIR'') ''USRDIR'')"
    by code_simp
  have r: "validation_root fs_disc ''disc'' = os_path_join ''disc'' ''USRDIR''"
    by code_simp
  show ?thesis using h r validation_root_idempotent [OF h] by blast
qed

subsection \<open>Files\<close>

lemma map_of_dict_set_same: "map_of (dict_set k v es) k = Some v"
  by (induction es) auto

lemma get_node_put_node: "put_node t cs n = Some t' \<Longrightarrow> get_node t' cs = Some n"
proof (induction t cs n arbitrary: t' rule: put_node.induct)
  case (1 n new)
  then show ?case by simp
next
  case (2 p d c cs new)
  then show ?case by simp
next
  case (3 es c cs new)
  show ?case
  proof (cases "cs = []")
    case True
    with 3 show ?thesis by (auto simp: map_of_dict_set_same)
  next
    case False
    with 3 show ?thesis
      by (auto simp: map_of_dict_set_same split: option.splits)
  qed
qed

lemma put_node_parent_dir:
  "cs \<noteq> [] \<Longrightarrow> get_node t (butlast cs) = Some (Dir es) \<Longrightarrow> put_node t cs n \<noteq> None"
proof (induction t cs n arbitrary: es rule: put_node.induct)
  case (1 n new)
  then show ?case by simp
next
  case (2 p d c cs new)
  then show ?case by (cases cs) auto
next
  case (3 es' c cs new)
  show ?case
  proof (cases "cs = []")
    case True
    then show ?thesis by simp
  next
    case False
    with 3 show ?thesis by (fastforce split: option.splits)
  qed
qed

lemma get_node_parent:
  "cs \<noteq> [] \<Longrightarrow> get_node t cs = Some x \<Longrightarrow> \<exists>es. get_node t (butlast cs) = Some (Dir es)"
proof (induction t cs arbitrary: x rule: get_node.induct)
  case (1 n)
  then show ?case by simp
next
  case (2 p d c cs)
  then show ?case by simp
next
  case (3 es c cs)
  then show ?case by (cases "cs = []") (auto split: option.splits)
qed

lemma can_open_w_put:
  assumes "can_open_w fs p"
  shows "\<exists>fs'. put_node fs (split_path p) (File ReadWrite d) = Some fs'"
proof -
  from assms have ne: "split_path p \<noteq> []" by (simp add: can_open_w_def Let_def)
  have "\<exists>es. get_node fs (butlast (split_path p)) = Some (Dir es)"
  proof (cases "get_node fs (split_path p)")
    case None
    with assms ne show ?thesis
      by (auto simp: can_open_w_def Let_def split: option.splits node.splits)
  next
    case (Some x)
    with ne show ?thesis using get_node_parent by blast
  qed
  then show ?thesis using put_node_parent_dir [OF ne] by fastforce
qed

lemma lookup_write_data:
  "can_open_w fs p \<Longrightarrow> lookup (write_data fs p d) p = Some (File ReadWrite d)"
  using can_open_w_put [of fs p d]
  by (auto simp: write_data_def lookup_def dest: get_node_put_node)

lemma serialisable_default_data: "serialisable (default_data b)"
  by (simp add: default_data_def)

lemma load_after_dump:
  "dump_to_file fs p v = (True, fs') \<Longrightarrow> load_from_file fs' p = Some v"
  by (auto simp: dump_to_file_def load_from_file_def lookup_write_data split: if_splits)

subsection \<open>Creating the configuration\<close>

text \<open>
  C8, as stated: whenever the file is absent the run creates it and returns \<^verbatim>\<open>CREATED\<close>.
  This fails where the file cannot be created. Here the directory \<^verbatim>\<open>proj\<close> that is to
  hold \<^verbatim>\<open>project.json\<close> does not exist: \<^verbatim>\<open>open\<close> raises, line 106 catches, and the run
  returns \<^verbatim>\<open>ERROR_CREATE\<close> with no file written.
\<close>

theorem create_default_fails_without_directory:
  "\<not> os_path_exists (Dir []) (os_path_abspath ''proj/project.json'')
   \<and> outcome_of (check_or_create_config ''proj/project.json'' (Dir []) []) = Returned ERROR_CREATE None
   \<and> disk_after (check_or_create_config ''proj/project.json'' (Dir []) []) = Dir []"
  by code_simp

text \<open>
  C8, amended: when the file is absent and can be opened for writing, the run returns
  \<^verbatim>\<open>CREATED\<close> with \<^verbatim>\<open>None\<close>, reads no line of input, and the file then loads as the default
  document (\<^verbatim>\<open>project_path\<close> the directory of the file, \<^verbatim>\<open>TSGPS2SourcePath\<close> empty,
  \<^verbatim>\<open>Tools\<close> empty). When it cannot be opened the run returns \<^verbatim>\<open>ERROR_CREATE\<close>, and the file
  system is as before.
\<close>

theorem create_default:
  assumes "\<not> os_path_exists fs (os_path_abspath filename)"
  shows "if can_open_w fs (os_path_abspath filename) then
           outcome_of (check_or_create_config filename fs inputs) = Returned CREATED None
           \<and> load_from_file (disk_after (check_or_create_config filename fs inputs)) (os_path_abspath filename)
               = Some (default_data (os_path_dirname (os_path_abspath filename)))
           \<and> unread (check_or_create_config filename fs inputs) = inputs
         else
           outcome_of (check_or_create_config filename fs inputs) = Returned ERROR_CREATE None
           \<and> disk_after (check_or_create_config filename fs inputs) = fs
           \<and> unread (check_or_create_config filename fs inputs) = inputs"
  using assms
  by (auto simp: check_or_create_config_def Let_def dump_to_file_def serialisable_default_data
      load_from_file_def lookup_write_data)

theorem create_default_witness:
  "\<not> os_path_exists fs_fresh (os_path_abspath ''proj/project.json'')
   \<and> can_open_w fs_fresh (os_path_abspath ''proj/project.json'')
   \<and> outcome_of (check_or_create_config ''proj/project.json'' fs_fresh []) = Returned CREATED None
   \<and> load_from_file (disk_after (check_or_create_config ''proj/project.json'' fs_fresh []))
        (os_path_abspath ''proj/project.json'')
        = Some (default_data (os_path_dirname (os_path_abspath ''proj/project.json'')))
   \<and> unread (check_or_create_config ''proj/project.json'' fs_fresh []) = []"
proof -
  have a: "\<not> os_path_exists fs_fresh (os_path_abspath ''proj/project.json'')"
    by code_simp
  have b: "can_open_w fs_fresh (os_path_abspath ''proj/project.json'')"
    by code_simp
  show ?thesis
    using create_default [OF a, of "[]"] a b by simp
qed

subsection \<open>The menu\<close>

text \<open>
  C6. When the local data path exists and the operator's line is \<^verbatim>\<open>2\<close> (white space
  aside), option 2 announces the move, reports in red that the destination exists, and
  goes back to the prompt. The file system it hands on is the one it was given: nothing is
  created, moved or deleted, and the loop continues on the remaining lines exactly as it
  would from that file system.
\<close>

theorem move_rejected_when_destination_exists:
  assumes "os_path_exists fs local_data_path" and "strip line = ''2''"
  shows "move_option path_from_config local_data_path fs =
           (Again, fs,
            [Say RED ''Attempting to move files from {} to {}...''
               [Txt path_from_config, Txt local_data_path],
             Say RED ''Error: Destination path {} already exists. Cannot move.'' [Txt local_data_path],
             Say YELLOW ''Please remove the existing directory or choose Copy (option 1) or Use original (option 3).'' []])
         \<and> choice_loop path_from_config local_data_path fs (line # rest) =
           (case choice_loop path_from_config local_data_path fs rest of
              (r, fs', out, rest') \<Rightarrow>
                (r, fs',
                 [Ask ''Enter your choice (1, 2, or 3): '',
                  Say RED ''Attempting to move files from {} to {}...''
                    [Txt path_from_config, Txt local_data_path],
                  Say RED ''Error: Destination path {} already exists. Cannot move.'' [Txt local_data_path],
                  Say YELLOW ''Please remove the existing directory or choose Copy (option 1) or Use original (option 3).'' []]
                 @ out, rest'))"
proof -
  have m: "move_option path_from_config local_data_path fs =
           (Again, fs,
            [Say RED ''Attempting to move files from {} to {}...''
               [Txt path_from_config, Txt local_data_path],
             Say RED ''Error: Destination path {} already exists. Cannot move.'' [Txt local_data_path],
             Say YELLOW ''Please remove the existing directory or choose Copy (option 1) or Use original (option 3).'' []])"
    using assms(1) by (simp add: move_option_def)
  show ?thesis using m assms(2) by (simp add: Let_def split: prod.splits)
qed

theorem move_rejected_when_destination_exists_witness:
  "os_path_exists fs_local_exists (local_data_path_of ''proj/project.json'')
   \<and> strip '' 2 '' = ''2''
   \<and> fst (move_option ''game'' (local_data_path_of ''proj/project.json'') fs_local_exists) = Again
   \<and> fst (snd (move_option ''game'' (local_data_path_of ''proj/project.json'') fs_local_exists))
       = fs_local_exists
   \<and> choice_loop ''game'' (local_data_path_of ''proj/project.json'') fs_local_exists ['' 2 '']
       = (Ended, fs_local_exists,
          [Ask ''Enter your choice (1, 2, or 3): '',
           Say RED ''Attempting to move files from {} to {}...''
             [Txt ''game'', Txt (local_data_path_of ''proj/project.json'')],
           Say RED ''Error: Destination path {} already exists. Cannot move.''
             [Txt (local_data_path_of ''proj/project.json'')],
           Say YELLOW ''Please remove the existing directory or choose Copy (option 1) or Use original (option 3).'' [],
           Ask ''Enter your choice (1, 2, or 3): ''],
          [])"
proof -
  have a: "os_path_exists fs_local_exists (local_data_path_of ''proj/project.json'')"
    by code_simp
  have b: "strip '' 2 '' = ''2''"
    by code_simp
  show ?thesis
    using move_rejected_when_destination_exists [OF a b, of "''game''" "[]"] a b by simp
qed

lemma mkdirs_isdir: "mkdirs t cs = Some t' \<Longrightarrow> \<exists>es. get_node t' cs = Some (Dir es)"
proof (induction t cs arbitrary: t' rule: mkdirs.induct)
  case (1 p d cs)
  then show ?case by simp
next
  case (2 es)
  then show ?case by auto
next
  case (3 es c cs)
  then show ?case by (auto simp: map_of_dict_set_same split: option.splits)
qed

lemma isdir_after_mkdirs: "mkdirs fs (split_path p) = Some fs' \<Longrightarrow> os_path_isdir fs' p"
  using mkdirs_isdir [of fs "split_path p" fs'] by (auto simp: os_path_isdir_def lookup_def)

text \<open>
  C10, as stated: with no file counted, option 1 succeeds, the local directory is created
  and the run goes on to the validation. This fails where creating the directory raises.
  Here the project directory holds a file named \<^verbatim>\<open>Source\<close>, so
  \<^verbatim>\<open>os.makedirs\<close> of \<^verbatim>\<open>proj\Source\GameFiles\SimpGamePS2\<close> raises inside the \<^verbatim>\<open>try\<close> of
  line 213: line 226 catches it, the loop asks again, and with no further line the run ends
  in \<^verbatim>\<open>EOFError\<close> with no directory created.
\<close>

theorem copy_of_no_files_can_fail:
  "total_files_of fs_source_is_file ''game'' = 0
   \<and> fst (copy_option ''game'' (local_data_path_of ''proj/project.json'') fs_source_is_file) = Again
   \<and> \<not> os_path_isdir
         (disk_after (check_or_create_config ''proj/project.json'' fs_source_is_file [''game'', ''1'']))
         (local_data_path_of ''proj/project.json'')
   \<and> outcome_of (check_or_create_config ''proj/project.json'' fs_source_is_file [''game'', ''1''])
       = Raised EOFError"
  by code_simp

text \<open>
  C10, amended: with no file counted and the line \<^verbatim>\<open>1\<close>, option 1 prints its four
  messages and calls neither \<^verbatim>\<open>copytree\<close> nor the progress function. If the local
  directory can be created it is a directory afterwards, the effective path is the local
  data path and the loop is left for the validation. If creating it raises, the error is
  printed, the file system is as before, and the operator is asked again.
\<close>

theorem copy_of_no_files:
  assumes "total_files_of fs path_from_config = 0" and "strip line = ''1''"
  shows "case mkdirs fs (split_path local_data_path) of
           Some fs' \<Rightarrow>
             copy_option path_from_config local_data_path fs =
               (Break local_data_path, fs', no_files_messages path_from_config local_data_path)
             \<and> os_path_isdir fs' local_data_path
             \<and> choice_loop path_from_config local_data_path fs (line # rest) =
               (Effective ''1'' local_data_path, fs',
                Ask ''Enter your choice (1, 2, or 3): '' # no_files_messages path_from_config local_data_path, rest)
         | None \<Rightarrow>
             copy_option path_from_config local_data_path fs =
               (Again, fs,
                no_files_messages path_from_config local_data_path @
                [Say RED ''Error accessing source path {} to count files: {}'' [Txt path_from_config],
                 Say RED ''Cannot proceed with file operations.'' []])
             \<and> choice_loop path_from_config local_data_path fs (line # rest) =
               (case choice_loop path_from_config local_data_path fs rest of
                  (r, fs', out, rest') \<Rightarrow>
                    (r, fs',
                     Ask ''Enter your choice (1, 2, or 3): '' #
                     no_files_messages path_from_config local_data_path @
                     [Say RED ''Error accessing source path {} to count files: {}'' [Txt path_from_config],
                      Say RED ''Cannot proceed with file operations.'' []] @ out, rest'))"
  using assms
  by (auto simp: copy_option_def Let_def no_files_messages_def isdir_after_mkdirs
      split: option.splits prod.splits)

theorem copy_of_no_files_witness:
  "total_files_of fs_marker_empty ''disc'' = 0
   \<and> strip ''1'' = ''1''
   \<and> fst (copy_option ''disc'' (local_data_path_of ''proj/project.json'') fs_marker_empty)
       = Break (local_data_path_of ''proj/project.json'')
   \<and> os_path_isdir
        (fst (snd (copy_option ''disc'' (local_data_path_of ''proj/project.json'') fs_marker_empty)))
        (local_data_path_of ''proj/project.json'')
   \<and> fst (choice_loop ''disc'' (local_data_path_of ''proj/project.json'') fs_marker_empty [''1''])
       = Effective ''1'' (local_data_path_of ''proj/project.json'')"
proof -
  have a: "total_files_of fs_marker_empty ''disc'' = 0"
    by code_simp
  have b: "strip ''1'' = ''1''"
    by code_simp
  have c: "mkdirs fs_marker_empty (split_path (local_data_path_of ''proj/project.json'')) \<noteq> None"
    by code_simp
  show ?thesis
    using copy_of_no_files [OF a b, of "local_data_path_of ''proj/project.json''" "[]"] a b c
    by (auto split: option.splits)
qed

end
